theory Spec2Isabelle
  imports Main
begin

section \<open>Authentication core of the OTP helper backend\<close>

text \<open>
  The embedding follows the backend's authentication service (\<^verbatim>\<open>services/authService.js\<close>),
  the models it calls (\<^verbatim>\<open>models/User.js\<close>, \<^verbatim>\<open>models/Session.js\<close>,
  \<^verbatim>\<open>models/AuditLog.js\<close>) and the configuration modules \<^verbatim>\<open>config/security.js\<close> and
  \<^verbatim>\<open>config/jwt.js\<close>.

  \<^item> The three MySQL tables are lists of rows; a query \<^verbatim>\<open>WHERE col = ?\<close> read through
    \<^verbatim>\<open>db.queryOne\<close> is the first matching row, an \<^verbatim>\<open>UPDATE ... WHERE\<close> rewrites
    every matching row.
  \<^item> Every \<^verbatim>\<open>new Date()\<close> and \<^verbatim>\<open>NOW()\<close> of one service call reads the same clock
    value \<open>now\<close>, in milliseconds; the rounding of \<^verbatim>\<open>DATETIME\<close> columns to seconds is
    not modelled.
  \<^item> A thrown exception is the \<open>Inl\<close> branch of the result; the store reached when it
    is thrown is returned with it, since nothing is rolled back.
  \<^item> \<^verbatim>\<open>bcrypt\<close>, the HMAC of \<^verbatim>\<open>jsonwebtoken\<close> and the host's time zone are
    functions supplied by an environment record.
  \<^item> The insert of an audit row may be refused by the database; the flag \<open>aud\<close> of
    each service call says whether that insert goes through.
\<close>

subsection \<open>Errors\<close>

text \<open>
  \<^verbatim>\<open>AppError(message, statusCode, code)\<close> from \<^verbatim>\<open>middleware/errorHandler.js\<close>; the plain
  \<^verbatim>\<open>Error(message)\<close> thrown by \<^verbatim>\<open>verifyToken\<close>; the driver's error rethrown by
  \<^verbatim>\<open>db.insert\<close>; and the \<^verbatim>\<open>TypeError\<close> of reading a property of \<^verbatim>\<open>null\<close>.
\<close>

datatype error =
    AppError (message: string) (statusCode: nat) (code: string)
  | PlainError string
  | DriverError
  | TypeError

subsection \<open>Rows\<close>

record user =
  u_id :: nat
  username :: string
  password_hash :: string
  email :: "string option"
  role :: string
  is_active :: bool
  failed_login_attempts :: int
  locked_until :: "int option"
  last_login_at :: "int option"

datatype json = JNum int | JStr string | JBool bool

type_synonym object = "(string \<times> json) list"

text \<open>A signed token: the payload object and its signature (header and base64 encoding
  are left out).\<close>

datatype token = Jwt (jwt_payload: object) (jwt_signature: string)

record session =
  s_id :: nat
  user_id :: nat
  token :: token
  ip_address :: string
  user_agent :: string
  expires_at :: int
  created_at :: int
  revoked_at :: "int option"
  last_accessed_at :: "int option"

record audit_entry =
  a_userId :: "nat option"
  action :: string
  resource :: string
  details :: object
  a_ipAddress :: string
  status :: string

record state =
  users :: "user list"
  sessions :: "session list"
  audit_log :: "audit_entry list"

text \<open>What the service reads from the request: \<^verbatim>\<open>getClientIp(req)\<close> and
  \<^verbatim>\<open>getUserAgent(req)\<close>.\<close>

record request =
  clientIp :: string
  userAgent :: string

subsection \<open>Configuration\<close>

text \<open>
  \<^verbatim>\<open>JWT_EXPIRES_IN\<close> is a string. \<open>Span v u\<close> is a setting that matches the
  pattern \<^verbatim>\<open>^(\d+)([smhd])$\<close> of \<^verbatim>\<open>getTokenExpirationSeconds\<close>; \<open>Other n\<close> is any other
  setting, which the signing library reads as \<open>n\<close> seconds.
\<close>

datatype expires_in = Span nat char | Other int

record config =
  MAX_LOGIN_ATTEMPTS :: int
  LOCKOUT_DURATION_MINUTES :: int
  JWT_SECRET :: string
  JWT_EXPIRES_IN :: expires_in

definition default_config :: config where
  "default_config =
     \<lparr> MAX_LOGIN_ATTEMPTS = 5, LOCKOUT_DURATION_MINUTES = 15,
       JWT_SECRET = ''default-secret-key-change-in-production'',
       JWT_EXPIRES_IN = Span 1 (CHR ''h'') \<rparr>"

text \<open>
  \<open>LocalTZA t isUTC\<close> is the offset of the host's time zone in milliseconds, as the
  language standard names it: for \<open>isUTC = True\<close> the offset in force at the instant
  \<open>t\<close>, for \<open>isUTC = False\<close> the offset used to read \<open>t\<close> as a local wall-clock value.
\<close>

record env =
  bcrypt_compare :: "string \<Rightarrow> string \<Rightarrow> bool"
  bcrypt_hash :: "string \<Rightarrow> string"
  hmac :: "string \<Rightarrow> object \<Rightarrow> string"
  LocalTZA :: "int \<Rightarrow> bool \<Rightarrow> int"

subsection \<open>config/security.js\<close>

text \<open>
  The setters of \<^verbatim>\<open>Date\<close> work on local time. \<^verbatim>\<open>d.setMinutes(d.getMinutes() + k)\<close> and
  \<^verbatim>\<open>d.setSeconds(d.getSeconds() + k)\<close> take the local wall-clock value of the instant,
  add \<open>k\<close> minutes or seconds to it (fields out of range carry over), and convert the
  sum back to an instant with the offset that belongs to that wall-clock value. Where the
  offset changes in between, the instant moves by more or less than what was added.
\<close>

definition LocalTime :: "env \<Rightarrow> int \<Rightarrow> int" where
  "LocalTime e t = t + LocalTZA e t True"

definition UTC :: "env \<Rightarrow> int \<Rightarrow> int" where
  "UTC e t = t - LocalTZA e t False"

definition getLockoutExpiration :: "config \<Rightarrow> env \<Rightarrow> int \<Rightarrow> int" where
  "getLockoutExpiration cfg e now =
     UTC e (LocalTime e now + LOCKOUT_DURATION_MINUTES cfg * 60000)"

definition isAccountLocked :: "int \<Rightarrow> int option \<Rightarrow> bool" where
  "isAccountLocked now lockedUntil =
     (case lockedUntil of None \<Rightarrow> False | Some t \<Rightarrow> t > now)"

subsection \<open>config/jwt.js\<close>

definition multipliers :: "char \<Rightarrow> int option" where
  "multipliers u =
     (if u = CHR ''s'' then Some 1
      else if u = CHR ''m'' then Some 60
      else if u = CHR ''h'' then Some 3600
      else if u = CHR ''d'' then Some 86400
      else None)"

definition getTokenExpirationSeconds :: "config \<Rightarrow> int" where
  "getTokenExpirationSeconds cfg =
     (case JWT_EXPIRES_IN cfg of
        Other n \<Rightarrow> 3600
      | Span v u \<Rightarrow> int v * (case multipliers u of Some m \<Rightarrow> m | None \<Rightarrow> 3600))"

text \<open>The life time that \<^verbatim>\<open>jwt.sign\<close> derives from its \<^verbatim>\<open>expiresIn\<close> option, in
  seconds.\<close>

definition sign_span :: "config \<Rightarrow> int" where
  "sign_span cfg =
     (case JWT_EXPIRES_IN cfg of
        Other n \<Rightarrow> n
      | Span v u \<Rightarrow> int v * (case multipliers u of Some m \<Rightarrow> m | None \<Rightarrow> 3600))"

record claims =
  c_userId :: nat
  c_username :: string
  c_role :: string

text \<open>The object literal \<^verbatim>\<open>{ userId, username, role }\<close> that \<^verbatim>\<open>login\<close> and
  \<^verbatim>\<open>refreshToken\<close> hand to \<^verbatim>\<open>generateToken\<close>.\<close>

definition claims_object :: "claims \<Rightarrow> object" where
  "claims_object c =
     [(''userId'', JNum (int (c_userId c))),
      (''username'', JStr (c_username c)),
      (''role'', JStr (c_role c))]"

text \<open>
  \<^verbatim>\<open>jwt.sign(payload, JWT_SECRET, { expiresIn })\<close>. The library is a dependency of the
  repository; as its documentation and the repository's architecture notes
  (the section on the token structure lists \<^verbatim>\<open>sub, username, role, iat, exp\<close>) describe it, signing with
  \<^verbatim>\<open>expiresIn\<close> adds the members \<^verbatim>\<open>iat\<close> (the clock in whole seconds) and
  \<^verbatim>\<open>exp = iat + span\<close> to a copy of the payload and signs the result.
\<close>

definition generateToken :: "config \<Rightarrow> env \<Rightarrow> int \<Rightarrow> claims \<Rightarrow> token" where
  "generateToken cfg e now c =
     (let timestamp = now div 1000;
          payload = claims_object c @
            [(''iat'', JNum timestamp), (''exp'', JNum (timestamp + sign_span cfg))]
      in Jwt payload (hmac e (JWT_SECRET cfg) payload))"

text \<open>
  \<^verbatim>\<open>jwt.verify(token, JWT_SECRET)\<close> inside the \<^verbatim>\<open>try\<close> of \<^verbatim>\<open>verifyToken\<close>: a signature
  that does not match is a \<^verbatim>\<open>JsonWebTokenError\<close>, rethrown as \<^verbatim>\<open>Error('Invalid token')\<close>;
  an \<^verbatim>\<open>exp\<close> member that is not a number is one too; a clock (in whole seconds) at or
  past \<^verbatim>\<open>exp\<close> is a \<^verbatim>\<open>TokenExpiredError\<close>, rethrown as \<^verbatim>\<open>Error('Token expired')\<close>;
  otherwise the decoded payload is returned. A string that does not parse as a token has
  no counterpart in the type \<open>token\<close>.
\<close>

definition verifyToken :: "config \<Rightarrow> env \<Rightarrow> int \<Rightarrow> token \<Rightarrow> error + object" where
  "verifyToken cfg e now t =
     (if jwt_signature t \<noteq> hmac e (JWT_SECRET cfg) (jwt_payload t)
      then Inl (PlainError ''Invalid token'')
      else case map_of (jwt_payload t) ''exp'' of
             None \<Rightarrow> Inr (jwt_payload t)
           | Some (JNum ex) \<Rightarrow>
               if now div 1000 \<ge> ex then Inl (PlainError ''Token expired'')
               else Inr (jwt_payload t)
           | Some _ \<Rightarrow> Inl (PlainError ''Invalid token''))"

subsection \<open>models/User.js\<close>

definition User_findByUsername :: "state \<Rightarrow> string \<Rightarrow> user option" where
  "User_findByUsername st name = find (\<lambda>u. username u = name) (users st)"

definition User_findById :: "state \<Rightarrow> nat \<Rightarrow> user option" where
  "User_findById st i = find (\<lambda>u. u_id u = i) (users st)"

text \<open>\<^verbatim>\<open>UPDATE users SET ... WHERE id = ?\<close>\<close>

definition update_users :: "(user \<Rightarrow> user) \<Rightarrow> nat \<Rightarrow> state \<Rightarrow> state" where
  "update_users f i st =
     st\<lparr>users := map (\<lambda>u. if u_id u = i then f u else u) (users st)\<rparr>"

definition verifyPassword :: "env \<Rightarrow> string \<Rightarrow> string \<Rightarrow> bool" where
  "verifyPassword e plainPassword hashedPassword = bcrypt_compare e plainPassword hashedPassword"

definition updateLastLogin :: "int \<Rightarrow> nat \<Rightarrow> state \<Rightarrow> state" where
  "updateLastLogin now userId st = update_users (\<lambda>u. u\<lparr>last_login_at := Some now\<rparr>) userId st"

definition lockAccount :: "config \<Rightarrow> env \<Rightarrow> int \<Rightarrow> nat \<Rightarrow> state \<Rightarrow> state" where
  "lockAccount cfg e now userId st =
     (let lockedUntil = getLockoutExpiration cfg e now
      in update_users (\<lambda>u. u\<lparr>locked_until := Some lockedUntil\<rparr>) userId st)"

definition incrementFailedAttempts ::
  "config \<Rightarrow> env \<Rightarrow> int \<Rightarrow> nat \<Rightarrow> state \<Rightarrow> user option \<times> state" where
  "incrementFailedAttempts cfg e now userId st =
     (let st1 = update_users
                  (\<lambda>u. u\<lparr>failed_login_attempts := failed_login_attempts u + 1\<rparr>) userId st
      in case User_findById st1 userId of
           None \<Rightarrow> (None, st1)
         | Some u \<Rightarrow>
             if failed_login_attempts u \<ge> MAX_LOGIN_ATTEMPTS cfg
             then (let st2 = lockAccount cfg e now userId st1
                   in (User_findById st2 userId, st2))
             else (Some u, st1))"

definition resetFailedAttempts :: "nat \<Rightarrow> state \<Rightarrow> state" where
  "resetFailedAttempts userId st =
     update_users (\<lambda>u. u\<lparr>failed_login_attempts := 0, locked_until := None\<rparr>) userId st"

definition User_changePassword :: "env \<Rightarrow> nat \<Rightarrow> string \<Rightarrow> state \<Rightarrow> state" where
  "User_changePassword e userId newPassword st =
     (let passwordHash = bcrypt_hash e newPassword
      in update_users (\<lambda>u. u\<lparr>password_hash := passwordHash\<rparr>) userId st)"

subsection \<open>models/Session.js\<close>

text \<open>The \<^verbatim>\<open>AUTO_INCREMENT\<close> key of a new session row.\<close>

definition next_session_id :: "state \<Rightarrow> nat" where
  "next_session_id st = Suc (foldr max (map s_id (sessions st)) 0)"

definition Session_create ::
  "int \<Rightarrow> nat \<Rightarrow> token \<Rightarrow> int \<Rightarrow> string \<Rightarrow> string \<Rightarrow> state \<Rightarrow> state" where
  "Session_create now userId tok expiresAt ipAddress ua st =
     st\<lparr>sessions := sessions st @
        [\<lparr> s_id = next_session_id st, user_id = userId, token = tok,
           ip_address = ipAddress, user_agent = ua, expires_at = expiresAt,
           created_at = now, revoked_at = None, last_accessed_at = None \<rparr>]\<rparr>"

definition findByToken :: "state \<Rightarrow> token \<Rightarrow> session option" where
  "findByToken st tok = find (\<lambda>s. token s = tok) (sessions st)"

text \<open>\<^verbatim>\<open>UPDATE sessions SET revoked_at = NOW() WHERE ...\<close>\<close>

definition revoke_where :: "(session \<Rightarrow> bool) \<Rightarrow> int \<Rightarrow> state \<Rightarrow> state" where
  "revoke_where P now st =
     st\<lparr>sessions := map (\<lambda>s. if P s then s\<lparr>revoked_at := Some now\<rparr> else s) (sessions st)\<rparr>"

definition revoke :: "int \<Rightarrow> nat \<Rightarrow> state \<Rightarrow> state" where
  "revoke now sessionId st = revoke_where (\<lambda>s. s_id s = sessionId) now st"

definition revokeByToken :: "int \<Rightarrow> token \<Rightarrow> state \<Rightarrow> state" where
  "revokeByToken now tok st = revoke_where (\<lambda>s. token s = tok) now st"

definition revokeAllByUserId :: "int \<Rightarrow> nat \<Rightarrow> state \<Rightarrow> state" where
  "revokeAllByUserId now userId st =
     revoke_where (\<lambda>s. user_id s = userId \<and> revoked_at s = None) now st"

definition isValid :: "state \<Rightarrow> int \<Rightarrow> token \<Rightarrow> bool" where
  "isValid st now tok =
     (case findByToken st tok of
        None \<Rightarrow> False
      | Some s \<Rightarrow>
          if revoked_at s \<noteq> None then False
          else if expires_at s < now then False
          else True)"

subsection \<open>models/AuditLog.js\<close>

text \<open>\<^verbatim>\<open>AuditLog.create\<close>: the insert either appends the row or throws the driver's
  error.\<close>

definition AuditLog_create :: "bool \<Rightarrow> audit_entry \<Rightarrow> state \<Rightarrow> error + state" where
  "AuditLog_create aud e st =
     (if aud then Inr (st\<lparr>audit_log := audit_log st @ [e]\<rparr>) else Inl DriverError)"

text \<open>\<^verbatim>\<open>await AuditLog.create(...)\<close> followed by the \<^verbatim>\<open>throw\<close> or \<^verbatim>\<open>return\<close> of the
  calling branch: when the insert throws, its error leaves the service function in place
  of the branch's own outcome.\<close>

definition audit_then ::
  "bool \<Rightarrow> audit_entry \<Rightarrow> (error + 'a) \<Rightarrow> state \<Rightarrow> (error + 'a) \<times> state" where
  "audit_then aud e outcome st =
     (case AuditLog_create aud e st of
        Inl err \<Rightarrow> (Inl err, st)
      | Inr st' \<Rightarrow> (outcome, st'))"

subsection \<open>services/authService.js\<close>

record login_user =
  lu_id :: nat
  lu_username :: string
  lu_email :: "string option"
  lu_role :: string

record login_result =
  r_token :: token
  r_user :: login_user
  r_expiresIn :: int

record refresh_result =
  n_token :: token
  n_expiresIn :: int

definition INVALID_CREDENTIALS :: error where
  "INVALID_CREDENTIALS = AppError ''Invalid username or password'' 401 ''INVALID_CREDENTIALS''"

definition ACCOUNT_INACTIVE :: error where
  "ACCOUNT_INACTIVE = AppError ''Account is inactive'' 403 ''ACCOUNT_INACTIVE''"

definition ACCOUNT_LOCKED :: error where
  "ACCOUNT_LOCKED =
     AppError ''Account is temporarily locked. Please try again later.'' 423 ''ACCOUNT_LOCKED''"

definition login_audit :: "nat option \<Rightarrow> object \<Rightarrow> string \<Rightarrow> string \<Rightarrow> audit_entry" where
  "login_audit uid det ipAddress st =
     \<lparr> a_userId = uid, action = ''login'', resource = ''auth'', details = det,
       a_ipAddress = ipAddress, status = st \<rparr>"

definition login ::
  "config \<Rightarrow> env \<Rightarrow> bool \<Rightarrow> int \<Rightarrow> string \<Rightarrow> string \<Rightarrow> request \<Rightarrow> state
     \<Rightarrow> (error + login_result) \<times> state" where
  "login cfg e aud now uname password req st =
     (let ipAddress = clientIp req; ua = userAgent req
      in case User_findByUsername st uname of
           None \<Rightarrow>
             audit_then aud
               (login_audit None
                  [(''username'', JStr uname), (''reason'', JStr ''user_not_found'')]
                  ipAddress ''failure'')
               (Inl INVALID_CREDENTIALS) st
         | Some user \<Rightarrow>
             if \<not> is_active user then
               audit_then aud
                 (login_audit (Some (u_id user))
                    [(''username'', JStr uname), (''reason'', JStr ''account_inactive'')]
                    ipAddress ''failure'')
                 (Inl ACCOUNT_INACTIVE) st
             else if isAccountLocked now (locked_until user) then
               audit_then aud
                 (login_audit (Some (u_id user))
                    [(''username'', JStr uname), (''reason'', JStr ''account_locked'')]
                    ipAddress ''failure'')
                 (Inl ACCOUNT_LOCKED) st
             else if \<not> verifyPassword e password (password_hash user) then
               (case incrementFailedAttempts cfg e now (u_id user) st of
                  (None, st1) \<Rightarrow> (Inl TypeError, st1)
                | (Some updatedUser, st1) \<Rightarrow>
                    audit_then aud
                      (login_audit (Some (u_id user))
                         [(''username'', JStr uname),
                          (''failedAttempts'', JNum (failed_login_attempts updatedUser)),
                          (''isLocked'', JBool (locked_until updatedUser \<noteq> None))]
                         ipAddress ''failure'')
                      (Inl INVALID_CREDENTIALS) st1)
             else
               (let st1 = resetFailedAttempts (u_id user) st;
                    st2 = updateLastLogin now (u_id user) st1;
                    tok = generateToken cfg e now
                            \<lparr> c_userId = u_id user, c_username = username user,
                              c_role = role user \<rparr>;
                    expiresIn = getTokenExpirationSeconds cfg;
                    expiresAt = UTC e (LocalTime e now + expiresIn * 1000);
                    st3 = Session_create now (u_id user) tok expiresAt ipAddress ua st2
                in audit_then aud
                     (login_audit (Some (u_id user)) [(''username'', JStr uname)]
                        ipAddress ''success'')
                     (Inr \<lparr> r_token = tok,
                            r_user = \<lparr> lu_id = u_id user, lu_username = username user,
                                       lu_email = email user, lu_role = role user \<rparr>,
                            r_expiresIn = expiresIn \<rparr>)
                     st3))"

definition logout ::
  "bool \<Rightarrow> int \<Rightarrow> nat \<Rightarrow> token \<Rightarrow> request \<Rightarrow> state \<Rightarrow> (error + unit) \<times> state" where
  "logout aud now userId tok req st =
     (let ipAddress = clientIp req;
          st1 = revokeByToken now tok st
      in audit_then aud
           \<lparr> a_userId = Some userId, action = ''logout'', resource = ''auth'', details = [],
             a_ipAddress = ipAddress, status = ''success'' \<rparr>
           (Inr ()) st1)"

definition refreshToken ::
  "config \<Rightarrow> env \<Rightarrow> bool \<Rightarrow> int \<Rightarrow> token \<Rightarrow> request \<Rightarrow> state
     \<Rightarrow> (error + refresh_result) \<times> state" where
  "refreshToken cfg e aud now currentToken req st =
     (let ipAddress = clientIp req; ua = userAgent req
      in if \<not> isValid st now currentToken then
           (Inl (AppError ''Invalid or expired session'' 401 ''INVALID_TOKEN''), st)
         else case findByToken st currentToken of
           None \<Rightarrow> (Inl (AppError ''Session not found'' 404 ''SESSION_NOT_FOUND''), st)
         | Some sess \<Rightarrow>
             (case User_findById st (user_id sess) of
                None \<Rightarrow> (Inl (AppError ''User not found or inactive'' 401 ''INVALID_TOKEN''), st)
              | Some user \<Rightarrow>
                  if \<not> is_active user then
                    (Inl (AppError ''User not found or inactive'' 401 ''INVALID_TOKEN''), st)
                  else
                    (let st1 = revoke now (s_id sess) st;
                         newToken = generateToken cfg e now
                            \<lparr> c_userId = u_id user, c_username = username user,
                              c_role = role user \<rparr>;
                         expiresIn = getTokenExpirationSeconds cfg;
                         expiresAt = UTC e (LocalTime e now + expiresIn * 1000);
                         st2 = Session_create now (u_id user) newToken expiresAt ipAddress ua st1
                     in audit_then aud
                          \<lparr> a_userId = Some (u_id user), action = ''token_refresh'',
                            resource = ''auth'', details = [], a_ipAddress = ipAddress,
                            status = ''success'' \<rparr>
                          (Inr \<lparr> n_token = newToken, n_expiresIn = expiresIn \<rparr>)
                          st2)))"

definition password_change_audit :: "nat \<Rightarrow> object \<Rightarrow> string \<Rightarrow> string \<Rightarrow> audit_entry" where
  "password_change_audit uid det ipAddress st =
     \<lparr> a_userId = Some uid, action = ''password_change'', resource = ''auth'', details = det,
       a_ipAddress = ipAddress, status = st \<rparr>"

text \<open>\<^verbatim>\<open>(await User.findById(userId)).username\<close> is a \<^verbatim>\<open>TypeError\<close> when no row has the
  id.\<close>

definition changePassword ::
  "env \<Rightarrow> bool \<Rightarrow> int \<Rightarrow> nat \<Rightarrow> string \<Rightarrow> string \<Rightarrow> request \<Rightarrow> state
     \<Rightarrow> (error + unit) \<times> state" where
  "changePassword e aud now userId currentPassword newPassword req st =
     (let ipAddress = clientIp req
      in case User_findById st userId of
           None \<Rightarrow> (Inl TypeError, st)
         | Some byId \<Rightarrow>
             (case User_findByUsername st (username byId) of
                None \<Rightarrow> (Inl (AppError ''User not found'' 404 ''USER_NOT_FOUND''), st)
              | Some user \<Rightarrow>
                  if \<not> verifyPassword e currentPassword (password_hash user) then
                    audit_then aud
                      (password_change_audit (u_id user)
                         [(''reason'', JStr ''invalid_current_password'')] ipAddress ''failure'')
                      (Inl (AppError ''Current password is incorrect'' 401
                              ''INVALID_CREDENTIALS''))
                      st
                  else
                    (let st1 = User_changePassword e userId newPassword st;
                         st2 = revokeAllByUserId now userId st1
                     in audit_then aud
                          (password_change_audit (u_id user) [] ipAddress ''success'')
                          (Inr ()) st2)))"

subsection \<open>Sample data\<close>

text \<open>A concrete environment and store on which the service functions are run below:
  the seeded administrator, a toy password hash, a toy signature and a host on UTC.\<close>

definition sample_env :: env where
  "sample_env =
     \<lparr> bcrypt_compare = (\<lambda>p h. h = ''bcrypt:'' @ p),
       bcrypt_hash = (\<lambda>p. ''bcrypt:'' @ p),
       hmac = (\<lambda>k pl. k @ concat (map fst pl)),
       LocalTZA = (\<lambda>t isUTC. 0) \<rparr>"

text \<open>The same environment on a host in New York around the night of 1 November 2026:
  until 06:00 UTC (instant 1793512800000) the offset is four hours, afterwards five, and
  the local hour from 01:00 to 02:00, which occurs twice, is read with the earlier
  offset.\<close>

definition new_york_env :: env where
  "new_york_env =
     sample_env\<lparr>LocalTZA :=
       (\<lambda>t isUTC.
          if isUTC then (if t < 1793512800000 then - 14400000 else - 18000000)
          else (if t < 1793512800000 - 14400000 then - 14400000 else - 18000000))\<rparr>"

definition admin :: user where
  "admin =
     \<lparr> u_id = 1, username = ''admin'', password_hash = ''bcrypt:correct'', email = None,
       role = ''admin'', is_active = True, failed_login_attempts = 0, locked_until = None,
       last_login_at = None \<rparr>"

definition store0 :: state where
  "store0 = \<lparr> users = [admin], sessions = [], audit_log = [] \<rparr>"

definition sample_request :: request where
  "sample_request = \<lparr> clientIp = ''127.0.0.1'', userAgent = ''curl'' \<rparr>"

definition admin_claims :: claims where
  "admin_claims = \<lparr> c_userId = 1, c_username = ''admin'', c_role = ''admin'' \<rparr>"

definition token_at :: "int \<Rightarrow> token" where
  "token_at t = generateToken default_config sample_env t admin_claims"

definition wrong_attempt :: "int \<Rightarrow> state \<Rightarrow> (error + login_result) \<times> state" where
  "wrong_attempt t st = login default_config sample_env True t ''admin'' ''wrong'' sample_request st"

definition ny_wrong_attempt :: "int \<Rightarrow> state \<Rightarrow> (error + login_result) \<times> state" where
  "ny_wrong_attempt t st =
     login default_config new_york_env True t ''admin'' ''wrong'' sample_request st"

definition good_attempt :: "bool \<Rightarrow> int \<Rightarrow> state \<Rightarrow> (error + login_result) \<times> state" where
  "good_attempt aud t st =
     login default_config sample_env aud t ''admin'' ''correct'' sample_request st"

definition store_one_session :: state where
  "store_one_session = snd (good_attempt True 0 store0)"

definition store_two_sessions :: state where
  "store_two_sessions = snd (good_attempt True 1000 store_one_session)"

definition store_inactive :: state where
  "store_inactive = \<lparr> users = [admin\<lparr>is_active := False\<rparr>], sessions = [], audit_log = [] \<rparr>"

definition store_locked :: state where
  "store_locked =
     \<lparr> users = [admin\<lparr>failed_login_attempts := 5, locked_until := Some 900000\<rparr>],
       sessions = [], audit_log = [] \<rparr>"

definition store_inactive_locked :: state where
  "store_inactive_locked =
     \<lparr> users = [admin\<lparr>is_active := False, locked_until := Some 900000\<rparr>],
       sessions = [], audit_log = [] \<rparr>"

lemmas model_defs =
  login_def logout_def refreshToken_def changePassword_def audit_then_def AuditLog_create_def
  User_findByUsername_def User_findById_def update_users_def verifyPassword_def
  updateLastLogin_def lockAccount_def incrementFailedAttempts_def resetFailedAttempts_def
  User_changePassword_def next_session_id_def Session_create_def findByToken_def
  revoke_where_def revoke_def revokeByToken_def revokeAllByUserId_def isValid_def
  LocalTime_def UTC_def getLockoutExpiration_def isAccountLocked_def multipliers_def getTokenExpirationSeconds_def
  sign_span_def claims_object_def generateToken_def verifyToken_def
  login_audit_def password_change_audit_def
  INVALID_CREDENTIALS_def ACCOUNT_INACTIVE_def ACCOUNT_LOCKED_def
  default_config_def sample_env_def new_york_env_def admin_def store0_def sample_request_def
  admin_claims_def token_at_def wrong_attempt_def ny_wrong_attempt_def good_attempt_def
  store_one_session_def store_two_sessions_def store_inactive_def store_locked_def
  store_inactive_locked_def

section \<open>Lookups and updates on the tables\<close>

lemma find_map_same:
  assumes "\<And>x. P (g x) = P x"
  shows "find P (map g xs) = map_option g (find P xs)"
  using assms by (induction xs) auto

lemma find_Some_mem: "find P xs = Some x \<Longrightarrow> x \<in> set xs \<and> P x"
  by (induction xs) (auto split: if_splits)

lemma find_None_all: "find P xs = None \<longleftrightarrow> (\<forall>x\<in>set xs. \<not> P x)"
  by (induction xs) auto

lemma User_findById_update:
  assumes "\<And>u. u_id (f u) = u_id u"
  shows "User_findById (update_users f i st) j =
         map_option (\<lambda>u. if u_id u = i then f u else u) (User_findById st j)"
  unfolding User_findById_def update_users_def
  by (simp add: find_map_same assms)

lemma User_findByUsername_update:
  assumes "\<And>u. username (f u) = username u"
  shows "User_findByUsername (update_users f i st) n =
         map_option (\<lambda>u. if u_id u = i then f u else u) (User_findByUsername st n)"
  unfolding User_findByUsername_def update_users_def
  by (simp add: find_map_same assms)

lemma findByUsername_has_id:
  "User_findByUsername st n = Some u \<Longrightarrow> \<exists>v. User_findById st (u_id u) = Some v"
  unfolding User_findByUsername_def User_findById_def
  by (cases "find (\<lambda>v. u_id v = u_id u) (users st)")
     (auto simp: find_None_all dest: find_Some_mem)

lemma findById_has_username:
  "User_findById st i = Some row \<Longrightarrow> \<exists>u. User_findByUsername st (username row) = Some u"
  unfolding User_findByUsername_def User_findById_def
  by (cases "find (\<lambda>v. username v = username row) (users st)")
     (auto simp: find_None_all dest: find_Some_mem)




lemma sessions_update_users [simp]: "sessions (update_users f i st) = sessions st"
  and audit_update_users [simp]: "audit_log (update_users f i st) = audit_log st"
  by (simp_all add: update_users_def)

lemma users_revoke_where [simp]: "users (revoke_where P now st) = users st"
  by (simp add: revoke_where_def)

lemma users_Session_create [simp]: "users (Session_create now uid tok ex ip ua st) = users st"
  by (simp add: Session_create_def)

lemma findByUsername_cong:
  "users st1 = users st2 \<Longrightarrow> User_findByUsername st1 n = User_findByUsername st2 n"
  by (simp add: User_findByUsername_def)

lemma findById_cong:
  "users st1 = users st2 \<Longrightarrow> User_findById st1 i = User_findById st2 i"
  by (simp add: User_findById_def)

lemma findByToken_cong:
  "sessions st1 = sessions st2 \<Longrightarrow> findByToken st1 tok = findByToken st2 tok"
  by (simp add: findByToken_def)

lemma isValid_cong:
  "sessions st1 = sessions st2 \<Longrightarrow> isValid st1 now tok = isValid st2 now tok"
  by (simp add: isValid_def findByToken_def)

lemma findByToken_revoke_where:
  "findByToken (revoke_where P now st) tok =
     map_option (\<lambda>s. if P s then s\<lparr>revoked_at := Some now\<rparr> else s) (findByToken st tok)"
  unfolding findByToken_def revoke_where_def
  by (simp add: find_map_same)

lemma findByToken_token: "findByToken st tok = Some s \<Longrightarrow> token s = tok"
  unfolding findByToken_def by (auto dest: find_Some_mem)

lemma isValid_iff:
  "isValid st now tok \<longleftrightarrow>
     (\<exists>s. findByToken st tok = Some s \<and> revoked_at s = None \<and> \<not> expires_at s < now)"
  unfolding isValid_def by (auto split: option.splits)

lemma isValid_after_revokeByToken: "\<not> isValid (revokeByToken now tok st) now' tok"
proof (cases "findByToken st tok")
  case None
  then show ?thesis
    by (simp add: isValid_def revokeByToken_def findByToken_revoke_where)
next
  case (Some s)
  then have "token s = tok" by (rule findByToken_token)
  with Some show ?thesis
    by (simp add: isValid_def revokeByToken_def findByToken_revoke_where)
qed

lemma isValid_after_revoke:
  assumes "findByToken st tok = Some s"
  shows "\<not> isValid (revoke now (s_id s) st) now' tok"
  using assms by (simp add: isValid_def revoke_def findByToken_revoke_where)

lemma isValid_after_revokeAll:
  assumes "findByToken st tok = Some s" and "user_id s = uid"
  shows "\<not> isValid (revokeAllByUserId now uid st) now' tok"
  using assms by (simp add: isValid_def revokeAllByUserId_def findByToken_revoke_where)

lemma hash_all:
  assumes mem: "u \<in> set (map (\<lambda>v. if u_id v = i then v\<lparr>password_hash := h\<rparr> else v) xs)"
    and uid: "u_id u = i"
  shows "password_hash u = h"
proof -
  from mem obtain v where u: "u = (if u_id v = i then v\<lparr>password_hash := h\<rparr> else v)"
    by (auto simp only: set_map image_iff)
  show ?thesis
  proof (cases "u_id v = i")
    case True
    with u show ?thesis by simp
  next
    case False
    with u have "u = v" by simp
    with uid False show ?thesis by simp
  qed
qed

lemma revoked_all:
  assumes mem: "s \<in> set (map (\<lambda>r. if user_id r = i \<and> revoked_at r = None
                                    then r\<lparr>revoked_at := Some now\<rparr> else r) xs)"
    and uid: "user_id s = i"
  shows "revoked_at s \<noteq> None"
proof -
  from mem obtain r where s: "s = (if user_id r = i \<and> revoked_at r = None
                                    then r\<lparr>revoked_at := Some now\<rparr> else r)"
    by (auto simp only: set_map image_iff)
  show ?thesis
  proof (cases "user_id r = i \<and> revoked_at r = None")
    case True
    with s show ?thesis by simp
  next
    case False
    with s have "s = r" by simp
    with uid False show ?thesis by auto
  qed
qed

lemma verifyToken_generateToken:
  assumes "now' div 1000 < now div 1000 + sign_span cfg"
  shows "verifyToken cfg e now' (generateToken cfg e now c) =
           Inr (claims_object c @
                  [(''iat'', JNum (now div 1000)),
                   (''exp'', JNum (now div 1000 + sign_span cfg))])"
  using assms by (simp add: verifyToken_def generateToken_def Let_def claims_object_def)


text \<open>At 06:40 UTC of that night in New York the local time is 01:40; fifteen minutes
  later on the wall clock is 01:55, read with the earlier offset: 05:55 UTC, which is 45
  minutes before the instant the lock was computed at.\<close>

lemma getLockoutExpiration_new_york:
  "getLockoutExpiration default_config new_york_env 1793515200000 = 1793515200000 - 2700000"
  by (simp add: getLockoutExpiration_def UTC_def LocalTime_def new_york_env_def
      default_config_def)

section \<open>The paths through the service functions\<close>

lemma users_audit_then [simp]: "users (snd (audit_then aud en out st)) = users st"
  and sessions_audit_then [simp]: "sessions (snd (audit_then aud en out st)) = sessions st"
  by (simp_all add: audit_then_def AuditLog_create_def)

lemma fst_audit_then: "fst (audit_then aud en out st) = (if aud then out else Inl DriverError)"
  by (simp add: audit_then_def AuditLog_create_def)

lemma audit_log_audit_then:
  "audit_log (snd (audit_then aud en out st)) =
     (if aud then audit_log st @ [en] else audit_log st)"
  by (simp add: audit_then_def AuditLog_create_def)

lemma login_not_found:
  assumes "User_findByUsername st n = None"
  shows "login cfg e aud now n p req st =
           audit_then aud
             (login_audit None [(''username'', JStr n), (''reason'', JStr ''user_not_found'')]
                (clientIp req) ''failure'')
             (Inl INVALID_CREDENTIALS) st"
  using assms by (simp add: login_def Let_def)

lemma login_inactive:
  assumes "User_findByUsername st n = Some u" and "\<not> is_active u"
  shows "login cfg e aud now n p req st =
           audit_then aud
             (login_audit (Some (u_id u))
                [(''username'', JStr n), (''reason'', JStr ''account_inactive'')]
                (clientIp req) ''failure'')
             (Inl ACCOUNT_INACTIVE) st"
  using assms by (simp add: login_def Let_def)

lemma login_locked:
  assumes found: "User_findByUsername st n = Some u"
    and active: "is_active u"
    and locked: "isAccountLocked now (locked_until u)"
  shows "login cfg e aud now n p req st =
           audit_then aud
             (login_audit (Some (u_id u))
                [(''username'', JStr n), (''reason'', JStr ''account_locked'')]
                (clientIp req) ''failure'')
             (Inl ACCOUNT_LOCKED) st"
  using assms by (simp add: login_def Let_def)

lemma incrementFailedAttempts_Some:
  assumes "User_findById st i = Some v"
  shows "\<exists>u' st'. incrementFailedAttempts cfg e now i st = (Some u', st')
           \<and> sessions st' = sessions st \<and> audit_log st' = audit_log st"
  using assms
  by (simp add: incrementFailedAttempts_def Let_def lockAccount_def User_findById_update)


lemma login_wrong_password:
  assumes found: "User_findByUsername st n = Some u"
    and active: "is_active u"
    and unlocked: "\<not> isAccountLocked now (locked_until u)"
    and wrong: "\<not> verifyPassword e p (password_hash u)"
  shows "fst (login cfg e aud now n p req st) =
           (if aud then Inl INVALID_CREDENTIALS else Inl DriverError)"
    and "users (snd (login cfg e aud now n p req st)) =
           users (snd (incrementFailedAttempts cfg e now (u_id u) st))"
    and "sessions (snd (login cfg e aud now n p req st)) = sessions st"
proof -
  from findByUsername_has_id [OF found] obtain v where "User_findById st (u_id u) = Some v"
    by blast
  from incrementFailedAttempts_Some [OF this, of cfg e now]
  obtain u' st' where inc: "incrementFailedAttempts cfg e now (u_id u) st = (Some u', st')"
    and ses: "sessions st' = sessions st"
    by blast
  have eq: "login cfg e aud now n p req st =
          audit_then aud
            (login_audit (Some (u_id u))
               [(''username'', JStr n),
                (''failedAttempts'', JNum (failed_login_attempts u')),
                (''isLocked'', JBool (locked_until u' \<noteq> None))]
               (clientIp req) ''failure'')
            (Inl INVALID_CREDENTIALS) st'"
    using found active unlocked wrong inc by (simp add: login_def Let_def)
  show "fst (login cfg e aud now n p req st) =
           (if aud then Inl INVALID_CREDENTIALS else Inl DriverError)"
    unfolding eq by (rule fst_audit_then)
  show "users (snd (login cfg e aud now n p req st)) =
           users (snd (incrementFailedAttempts cfg e now (u_id u) st))"
    unfolding eq by (simp add: inc)
  show "sessions (snd (login cfg e aud now n p req st)) = sessions st"
    unfolding eq by (simp add: ses)
qed


lemma login_correct_password:
  assumes found: "User_findByUsername st n = Some u"
    and active: "is_active u"
    and unlocked: "\<not> isAccountLocked now (locked_until u)"
    and right: "verifyPassword e p (password_hash u)"
  shows "login cfg e aud now n p req st =
           audit_then aud
             (login_audit (Some (u_id u)) [(''username'', JStr n)] (clientIp req) ''success'')
             (Inr \<lparr> r_token = generateToken cfg e now
                       \<lparr> c_userId = u_id u, c_username = username u, c_role = role u \<rparr>,
                    r_user = \<lparr> lu_id = u_id u, lu_username = username u,
                               lu_email = email u, lu_role = role u \<rparr>,
                    r_expiresIn = getTokenExpirationSeconds cfg \<rparr>)
             (Session_create now (u_id u)
                (generateToken cfg e now
                   \<lparr> c_userId = u_id u, c_username = username u, c_role = role u \<rparr>)
                (UTC e (LocalTime e now + getTokenExpirationSeconds cfg * 1000))
                (clientIp req) (userAgent req)
                (updateLastLogin now (u_id u) (resetFailedAttempts (u_id u) st)))"
  using assms by (simp add: login_def Let_def)

lemma login_success_only:
  assumes "fst (login cfg e aud now n p req st) = Inr r"
  shows "\<exists>u. User_findByUsername st n = Some u \<and> is_active u
             \<and> \<not> isAccountLocked now (locked_until u)
             \<and> verifyPassword e p (password_hash u)"
proof (cases "User_findByUsername st n")
  case None
  from login_not_found [OF None, of cfg e aud now p req] assms show ?thesis
    by (simp add: fst_audit_then split: if_splits)
next
  case (Some u)
  show ?thesis
  proof (cases "is_active u")
    case False
    from login_inactive [OF Some False, of cfg e aud now p req] assms show ?thesis
      by (simp add: fst_audit_then split: if_splits)
  next
    case True
    show ?thesis
    proof (cases "isAccountLocked now (locked_until u)")
      case lk: True
      from login_locked [OF Some True lk, of cfg e aud p req] assms show ?thesis
        by (simp add: fst_audit_then split: if_splits)
    next
      case nl: False
      show ?thesis
      proof (cases "verifyPassword e p (password_hash u)")
        case False
        from login_wrong_password(1) [OF Some True nl False, of cfg aud req] assms
        show ?thesis by (simp split: if_splits)
      next
        case ok: True
        with Some True nl show ?thesis by blast
      qed
    qed
  qed
qed

lemma login_audit_failure: "fst (login cfg e False now n p req st) = Inl DriverError"
proof (cases "User_findByUsername st n")
  case None
  from login_not_found [OF None] show ?thesis by (simp add: fst_audit_then)
next
  case (Some u)
  show ?thesis
  proof (cases "is_active u")
    case False
    from login_inactive [OF Some False] show ?thesis by (simp add: fst_audit_then)
  next
    case True
    show ?thesis
    proof (cases "isAccountLocked now (locked_until u)")
      case lk: True
      from login_locked [OF Some True lk] show ?thesis by (simp add: fst_audit_then)
    next
      case nl: False
      show ?thesis
      proof (cases "verifyPassword e p (password_hash u)")
        case False
        from login_wrong_password(1) [OF Some True nl False] show ?thesis by simp
      next
        case ok: True
        from login_correct_password [OF Some True nl ok] show ?thesis
          by (simp add: fst_audit_then)
      qed
    qed
  qed
qed

lemma login_store_independent_of_audit:
  "users (snd (login cfg e a now n p req st)) = users (snd (login cfg e b now n p req st))
   \<and> sessions (snd (login cfg e a now n p req st)) = sessions (snd (login cfg e b now n p req st))"
  by (simp add: login_def Let_def split: option.split prod.split)

lemma refresh_audit:
  "fst (refreshToken cfg e False now tok req st) =
     (case fst (refreshToken cfg e True now tok req st) of
        Inl err \<Rightarrow> Inl err | Inr r \<Rightarrow> Inl DriverError)
   \<and> users (snd (refreshToken cfg e False now tok req st)) =
       users (snd (refreshToken cfg e True now tok req st))
   \<and> sessions (snd (refreshToken cfg e False now tok req st)) =
       sessions (snd (refreshToken cfg e True now tok req st))"
  by (simp add: refreshToken_def Let_def fst_audit_then split: option.split)

lemma changePassword_wrong:
  assumes byId: "User_findById st uid = Some row"
    and byName: "User_findByUsername st (username row) = Some usr"
    and wrong: "\<not> verifyPassword e cur (password_hash usr)"
  shows "changePassword e b now uid cur new req st =
          audit_then b
            (password_change_audit (u_id usr)
               [(''reason'', JStr ''invalid_current_password'')] (clientIp req) ''failure'')
            (Inl (AppError ''Current password is incorrect'' 401 ''INVALID_CREDENTIALS''))
            st"
  using assms by (simp add: changePassword_def Let_def)

lemma changePassword_right:
  assumes byId: "User_findById st uid = Some row"
    and byName: "User_findByUsername st (username row) = Some usr"
    and right: "verifyPassword e cur (password_hash usr)"
  shows "changePassword e b now uid cur new req st =
          audit_then b (password_change_audit (u_id usr) [] (clientIp req) ''success'')
            (Inr ()) (revokeAllByUserId now uid (User_changePassword e uid new st))"
  using assms by (simp add: changePassword_def Let_def)

lemma changePassword_audit_failure:
  assumes "User_findById st uid = Some row"
  shows "fst (changePassword e False now uid cur new req st) = Inl DriverError"
proof -
  from findById_has_username [OF assms] obtain usr
    where byName: "User_findByUsername st (username row) = Some usr" by blast
  show ?thesis
  proof (cases "verifyPassword e cur (password_hash usr)")
    case True
    from changePassword_right [OF assms byName True] show ?thesis by (simp add: fst_audit_then)
  next
    case False
    from changePassword_wrong [OF assms byName False] show ?thesis by (simp add: fst_audit_then)
  qed
qed

lemma changePassword_store_independent_of_audit:
  "users (snd (changePassword e a now uid cur new req st)) =
     users (snd (changePassword e b now uid cur new req st))
   \<and> sessions (snd (changePassword e a now uid cur new req st)) =
     sessions (snd (changePassword e b now uid cur new req st))"
  by (simp add: changePassword_def Let_def split: option.split)

section \<open>The claims\<close>

subsection \<open>C1: five wrong passwords\<close>




text \<open>Without the condition on the offset the lock can be over before it starts: on the
  New York host, five wrong passwords from 06:40:00 UTC of that night on put the expiry at
  05:55 UTC, and the correct password five seconds later is let in.\<close>

lemma sixth_login_when_the_clocks_go_back:
  "map locked_until
     (users (snd (ny_wrong_attempt 1793515204000 (snd (ny_wrong_attempt 1793515203000
        (snd (ny_wrong_attempt 1793515202000 (snd (ny_wrong_attempt 1793515201000
          (snd (ny_wrong_attempt 1793515200000 store0)))))))))))
     = [Some 1793512504000]
   \<and> \<not> isl (fst (login default_config new_york_env True 1793515205000 ''admin'' ''correct''
        sample_request
        (snd (ny_wrong_attempt 1793515204000 (snd (ny_wrong_attempt 1793515203000
          (snd (ny_wrong_attempt 1793515202000 (snd (ny_wrong_attempt 1793515201000
            (snd (ny_wrong_attempt 1793515200000 store0))))))))))))"
  by (simp add: model_defs Let_def)

subsection \<open>C2: a locked account\<close>

text \<open>
  Claim C2, as the code has it. For an \<^emph>\<open>active\<close> account whose \<open>locked_until\<close> is set
  and strictly later than the clock, every login answers \<^verbatim>\<open>ACCOUNT_LOCKED\<close> whatever
  the password (when its audit row is written), and whether or not that row is written the
  users table and the sessions table are left as they were: the account row, its counter
  and its \<open>locked_until\<close> are untouched, so the lock is neither extended nor armed again.
\<close>

theorem C2_locked_active_account_is_rejected:
  assumes found: "User_findByUsername st uname = Some usr"
    and active: "is_active usr"
    and lock: "locked_until usr = Some t"
    and future: "now < t"
  shows "fst (login cfg e True now uname pw req st) = Inl ACCOUNT_LOCKED
       \<and> users (snd (login cfg e aud now uname pw req st)) = users st
       \<and> sessions (snd (login cfg e aud now uname pw req st)) = sessions st
       \<and> User_findByUsername (snd (login cfg e aud now uname pw req st)) uname = Some usr"
proof -
  have "isAccountLocked now (locked_until usr)"
    using lock future by (simp add: isAccountLocked_def)
  note eq = login_locked [OF found active this]
  have "User_findByUsername (snd (login cfg e aud now uname pw req st)) uname =
        User_findByUsername st uname"
    by (rule findByUsername_cong) (simp add: eq)
  with found show ?thesis by (simp add: eq fst_audit_then)
qed

theorem C2_locked_admin_with_correct_password:
  "User_findByUsername store_locked ''admin'' =
     Some (admin\<lparr>failed_login_attempts := 5, locked_until := Some 900000\<rparr>)
   \<and> is_active (admin\<lparr>failed_login_attempts := 5, locked_until := Some 900000\<rparr>)
   \<and> (5000::int) < 900000
   \<and> verifyPassword sample_env ''correct'' (password_hash admin)
   \<and> fst (login default_config sample_env True 5000 ''admin'' ''correct'' sample_request
            store_locked) = Inl ACCOUNT_LOCKED
   \<and> users (snd (login default_config sample_env True 5000 ''admin'' ''correct''
                   sample_request store_locked)) = users store_locked"
  using C2_locked_active_account_is_rejected
    [of store_locked "''admin''" "admin\<lparr>failed_login_attempts := 5, locked_until := Some 900000\<rparr>"
        900000 5000 default_config sample_env "''correct''" sample_request True]
  by (simp add: User_findByUsername_def verifyPassword_def store_locked_def admin_def
      sample_env_def)

text \<open>Claim C2 as the specification words it fails on an account that is locked and
  also deactivated: the active check comes first and the answer is
  \<^verbatim>\<open>ACCOUNT_INACTIVE\<close>.\<close>

theorem C2_inactive_locked_account_is_not_AccountLocked:
  "isAccountLocked 5000 (Some 900000)
   \<and> map locked_until (users store_inactive_locked) = [Some 900000]
   \<and> fst (login default_config sample_env True 5000 ''admin'' ''correct'' sample_request
            store_inactive_locked)
       = Inl (AppError ''Account is inactive'' 403 ''ACCOUNT_INACTIVE'')
   \<and> fst (login default_config sample_env True 5000 ''admin'' ''correct'' sample_request
            store_inactive_locked)
       \<noteq> Inl ACCOUNT_LOCKED"
  by (simp add: model_defs Let_def)

subsection \<open>C3: a failing audit insert\<close>

text \<open>
  Claim C3, as the code has it. Every \<^verbatim>\<open>AuditLog.create\<close> of the authentication service
  is awaited inside the operation and nothing catches its error. When the insert fails,
  the operation fails with the driver's error in place of the outcome it had reached:
  login and logout on every path, refresh when it would have succeeded (its failures
  write no audit row and stay as they are), change-password for every existing user id.
  The changes already made to the users and sessions tables are the same as when the
  insert succeeds.
\<close>

theorem C3_audit_failure_fails_the_operation:
  "fst (login cfg e False now uname pw req st) = Inl DriverError
   \<and> fst (logout False now uid tok req st) = Inl DriverError
   \<and> fst (refreshToken cfg e False now tok req st) =
       (case fst (refreshToken cfg e True now tok req st) of
          Inl err \<Rightarrow> Inl err | Inr r \<Rightarrow> Inl DriverError)
   \<and> (User_findById st uid \<noteq> None \<longrightarrow>
         fst (changePassword e False now uid cur new req st) = Inl DriverError)
   \<and> users (snd (login cfg e False now uname pw req st)) =
       users (snd (login cfg e True now uname pw req st))
   \<and> sessions (snd (login cfg e False now uname pw req st)) =
       sessions (snd (login cfg e True now uname pw req st))
   \<and> sessions (snd (logout False now uid tok req st)) =
       sessions (snd (logout True now uid tok req st))
   \<and> users (snd (refreshToken cfg e False now tok req st)) =
       users (snd (refreshToken cfg e True now tok req st))
   \<and> sessions (snd (refreshToken cfg e False now tok req st)) =
       sessions (snd (refreshToken cfg e True now tok req st))
   \<and> users (snd (changePassword e False now uid cur new req st)) =
       users (snd (changePassword e True now uid cur new req st))
   \<and> sessions (snd (changePassword e False now uid cur new req st)) =
       sessions (snd (changePassword e True now uid cur new req st))"
proof -
  have lo: "fst (logout False now uid tok req st) = Inl DriverError"
    by (simp add: logout_def Let_def fst_audit_then)
  have lo': "sessions (snd (logout False now uid tok req st)) =
             sessions (snd (logout True now uid tok req st))"
    by (simp add: logout_def Let_def)
  have cp: "User_findById st uid \<noteq> None \<longrightarrow>
         fst (changePassword e False now uid cur new req st) = Inl DriverError"
    using changePassword_audit_failure by blast
  show ?thesis
    using login_audit_failure [of cfg e now uname pw req st] lo lo' cp
      login_store_independent_of_audit [of cfg e False now uname pw req st True]
      refresh_audit [of cfg e now tok req st]
      changePassword_store_independent_of_audit [of e False now uid cur new req st True]
    by blast
qed

theorem C3_audit_failure_on_sample_store:
  "User_findById store_one_session 1 \<noteq> None
   \<and> \<not> isl (fst (good_attempt True 2000 store_one_session))
   \<and> fst (good_attempt False 2000 store_one_session) = Inl DriverError
   \<and> fst (logout False 2000 1 (token_at 0) sample_request store_one_session) = Inl DriverError
   \<and> \<not> isl (fst (refreshToken default_config sample_env True 2000 (token_at 0) sample_request
                    store_one_session))
   \<and> fst (refreshToken default_config sample_env False 2000 (token_at 0) sample_request
            store_one_session) = Inl DriverError
   \<and> fst (changePassword sample_env True 2000 1 ''correct'' ''Newpass1'' sample_request
            store_one_session) = Inr ()
   \<and> fst (changePassword sample_env False 2000 1 ''correct'' ''Newpass1'' sample_request
            store_one_session) = Inl DriverError"
  using C3_audit_failure_fails_the_operation
    [of default_config sample_env 2000 "''admin''" "''correct''" sample_request
        store_one_session 1 "token_at 0" "''correct''" "''Newpass1''"]
  by (simp add: model_defs Let_def)

text \<open>Claim C3 as the specification words it fails: the same correct login succeeds
  when the audit row is written and fails when the insert is refused.\<close>

theorem C3_login_outcome_depends_on_audit_write:
  "\<not> isl (fst (login default_config sample_env True 0 ''admin'' ''correct'' sample_request
                 store0))
   \<and> fst (login default_config sample_env False 0 ''admin'' ''correct'' sample_request store0)
       = Inl DriverError"
  by (simp add: model_defs Let_def)

subsection \<open>C4: issuing and verifying a token\<close>

text \<open>
  Claim C4, as the code has it. Verifying a token before its expiry returns the three
  claims \<^verbatim>\<open>userId\<close>, \<^verbatim>\<open>username\<close>, \<^verbatim>\<open>role\<close> with their values unchanged, followed
  by the two members the issuer added: \<^verbatim>\<open>iat\<close>, the issue time in seconds, and
  \<^verbatim>\<open>exp\<close>, the issue time plus the configured life time. For a token verified at the
  moment it was issued this needs no more than a positive life time.
\<close>

theorem C4_verify_returns_claims_with_iat_and_exp:
  assumes "now' div 1000 < now div 1000 + sign_span cfg"
  shows "verifyToken cfg e now' (generateToken cfg e now c) =
           Inr (claims_object c @
                  [(''iat'', JNum (now div 1000)),
                   (''exp'', JNum (now div 1000 + sign_span cfg))])"
  using assms by (rule verifyToken_generateToken)

theorem C4_fresh_admin_token:
  "(0::int) div 1000 < 0 div 1000 + sign_span default_config
   \<and> verifyToken default_config sample_env 0 (generateToken default_config sample_env 0 admin_claims)
       = Inr [(''userId'', JNum 1), (''username'', JStr ''admin''), (''role'', JStr ''admin''),
              (''iat'', JNum 0), (''exp'', JNum 3600)]"
  using C4_verify_returns_claims_with_iat_and_exp [of 0 0 default_config sample_env admin_claims]
  by (simp add: sign_span_def multipliers_def default_config_def claims_object_def
      admin_claims_def)

text \<open>Claim C4 as the specification words it fails: the object returned for a fresh
  token is not the claims object that was signed.\<close>

theorem C4_verified_payload_is_not_the_claims:
  "verifyToken default_config sample_env 0 (generateToken default_config sample_env 0 admin_claims)
     \<noteq> Inr (claims_object admin_claims)"
  by (simp add: model_defs Let_def)

subsection \<open>C5: unknown user and wrong password\<close>

text \<open>
  Claim C5. A login for a username that no row has, and a login with a wrong password for
  an existing, active, unlocked account, throw the same error: message
  \<^verbatim>\<open>Invalid username or password\<close>, status 401, code \<^verbatim>\<open>INVALID_CREDENTIALS\<close>. (When the
  audit insert is refused both throw the driver's error, so the two responses are equal in
  that case as well.)
\<close>

theorem C5_unknown_user_and_wrong_password_same_response:
  assumes missing: "User_findByUsername st u1 = None"
    and found: "User_findByUsername st u2 = Some usr"
    and active: "is_active usr"
    and unlocked: "\<not> isAccountLocked now2 (locked_until usr)"
    and wrong: "\<not> verifyPassword e p2 (password_hash usr)"
  shows "fst (login cfg e aud now1 u1 p1 req1 st) = fst (login cfg e aud now2 u2 p2 req2 st)
       \<and> fst (login cfg e True now1 u1 p1 req1 st) =
           Inl (AppError ''Invalid username or password'' 401 ''INVALID_CREDENTIALS'')
       \<and> fst (login cfg e True now2 u2 p2 req2 st) =
           Inl (AppError ''Invalid username or password'' 401 ''INVALID_CREDENTIALS'')"
proof -
  have a: "fst (login cfg e b now1 u1 p1 req1 st) =
             (if b then Inl INVALID_CREDENTIALS else Inl DriverError)" for b
    by (simp add: login_not_found [OF missing] fst_audit_then)
  have b: "fst (login cfg e b now2 u2 p2 req2 st) =
             (if b then Inl INVALID_CREDENTIALS else Inl DriverError)" for b
    by (rule login_wrong_password(1) [OF found active unlocked wrong])
  show ?thesis by (simp add: a b INVALID_CREDENTIALS_def)
qed

theorem C5_ghost_and_admin_with_wrong_password:
  "User_findByUsername store0 ''ghost'' = None
   \<and> User_findByUsername store0 ''admin'' = Some admin
   \<and> is_active admin
   \<and> \<not> isAccountLocked 0 (locked_until admin)
   \<and> \<not> verifyPassword sample_env ''wrong'' (password_hash admin)
   \<and> fst (login default_config sample_env True 0 ''ghost'' ''wrong'' sample_request store0)
       = fst (login default_config sample_env True 0 ''admin'' ''wrong'' sample_request store0)
   \<and> fst (login default_config sample_env True 0 ''admin'' ''wrong'' sample_request store0)
       = Inl (AppError ''Invalid username or password'' 401 ''INVALID_CREDENTIALS'')"
  using C5_unknown_user_and_wrong_password_same_response
    [of store0 "''ghost''" "''admin''" admin 0 sample_env "''wrong''" default_config True 0
        "''wrong''" sample_request sample_request]
  by (simp add: User_findByUsername_def isAccountLocked_def verifyPassword_def store0_def
      admin_def sample_env_def)

subsection \<open>C6: a revoked session\<close>

text \<open>
  Claim C6. After \<^verbatim>\<open>revokeByToken\<close> every later \<^verbatim>\<open>isValid\<close> call on that token
  is false, at any clock value and whatever the row's \<open>expires_at\<close>; the same holds
  after \<^verbatim>\<open>revoke\<close> on the id of the token's row and after \<^verbatim>\<open>revokeAllByUserId\<close> on
  its user. \<^verbatim>\<open>isValid\<close> is decided by the ledger row alone: it is true exactly when a
  row with the token is found, its \<open>revoked_at\<close> is null and its \<open>expires_at\<close> is not
  earlier than the clock. In particular a token whose signature still verifies and whose
  own expiry has not elapsed is rejected once revoked.
\<close>

theorem C6_revoked_session_is_invalid:
  "\<not> isValid (revokeByToken now tok st) now' tok
   \<and> (findByToken st tok = Some s \<longrightarrow>
        \<not> isValid (revoke now (s_id s) st) now' tok
        \<and> \<not> isValid (revokeAllByUserId now (user_id s) st) now' tok)
   \<and> (isValid st now' tok \<longleftrightarrow>
        (\<exists>r. findByToken st tok = Some r \<and> revoked_at r = None \<and> \<not> expires_at r < now'))
   \<and> (now' div 1000 < now0 div 1000 + sign_span cfg \<longrightarrow>
        verifyToken cfg e now' (generateToken cfg e now0 c) =
          Inr (claims_object c @
                 [(''iat'', JNum (now0 div 1000)),
                  (''exp'', JNum (now0 div 1000 + sign_span cfg))])
        \<and> \<not> isValid (revokeByToken now (generateToken cfg e now0 c) st) now'
              (generateToken cfg e now0 c))"
proof (intro conjI impI)
  show "\<not> isValid (revokeByToken now tok st) now' tok"
    by (rule isValid_after_revokeByToken)
  show "isValid st now' tok \<longleftrightarrow>
        (\<exists>r. findByToken st tok = Some r \<and> revoked_at r = None \<and> \<not> expires_at r < now')"
    by (rule isValid_iff)
  show "\<not> isValid (revokeByToken now (generateToken cfg e now0 c) st) now'
              (generateToken cfg e now0 c)"
    by (rule isValid_after_revokeByToken)
next
  assume f: "findByToken st tok = Some s"
  show "\<not> isValid (revoke now (s_id s) st) now' tok"
    using f by (rule isValid_after_revoke)
  show "\<not> isValid (revokeAllByUserId now (user_id s) st) now' tok"
    using f refl by (rule isValid_after_revokeAll)
next
  assume "now' div 1000 < now0 div 1000 + sign_span cfg"
  then show "verifyToken cfg e now' (generateToken cfg e now0 c) =
          Inr (claims_object c @
                 [(''iat'', JNum (now0 div 1000)),
                  (''exp'', JNum (now0 div 1000 + sign_span cfg))])"
    by (rule verifyToken_generateToken)
qed

text \<open>The scenario of the specification: log in, check the token, log out, check it
  again.\<close>

theorem C6_login_logout_scenario:
  "(2000::int) div 1000 < 0 div 1000 + sign_span default_config
   \<and> findByToken store_one_session (token_at 0) \<noteq> None
   \<and> \<not> isl (verifyToken default_config sample_env 2000 (token_at 0))
   \<and> isValid store_one_session 2000 (token_at 0)
   \<and> \<not> isValid (revokeByToken 1000 (token_at 0) store_one_session) 2000 (token_at 0)
   \<and> \<not> isValid (snd (logout True 1000 1 (token_at 0) sample_request store_one_session))
         2000 (token_at 0)"
proof -
  have span: "(2000::int) div 1000 < 0 div 1000 + sign_span default_config"
    by (simp add: sign_span_def multipliers_def default_config_def)
  have row: "findByToken store_one_session (token_at 0) \<noteq> None"
    and live: "isValid store_one_session 2000 (token_at 0)"
    by (simp_all add: model_defs Let_def)
  from row obtain s where s: "findByToken store_one_session (token_at 0) = Some s"
    by blast
  note inst = C6_revoked_session_is_invalid
    [of 1000 "token_at 0" store_one_session 2000 s 0 default_config sample_env admin_claims]
  from inst span have "verifyToken default_config sample_env 2000
                        (generateToken default_config sample_env 0 admin_claims) =
          Inr (claims_object admin_claims @
                 [(''iat'', JNum (0 div 1000)),
                  (''exp'', JNum (0 div 1000 + sign_span default_config))])"
    by blast
  then have ver: "\<not> isl (verifyToken default_config sample_env 2000 (token_at 0))"
    by (simp add: token_at_def)
  from inst have dead: "\<not> isValid (revokeByToken 1000 (token_at 0) store_one_session) 2000
                          (token_at 0)"
    by blast
  have "sessions (snd (logout True 1000 1 (token_at 0) sample_request store_one_session)) =
        sessions (revokeByToken 1000 (token_at 0) store_one_session)"
    by (simp add: logout_def Let_def)
  from isValid_cong [OF this] dead
  have out: "\<not> isValid (snd (logout True 1000 1 (token_at 0) sample_request
                              store_one_session)) 2000 (token_at 0)"
    by simp
  from span row ver live dead out show ?thesis by (intro conjI)
qed

subsection \<open>C7: changing the password\<close>

text \<open>
  Claim C7. Let the user id resolve to a row and that row's username to the account the
  service verifies against. If the current password verifies, change-password succeeds
  (its audit row written). The users table afterwards is the table before with the hash
  of the new password written into every row of that user id. The sessions table
  afterwards is the table before, row by row, with \<open>revoked_at\<close> set to the clock in
  every row of that user that was not yet revoked and every other row as it was: each
  session of the user that existed before the change is still there and is revoked, and
  no session of another user is touched. Every token that resolved to a session of that
  user before the change fails \<^verbatim>\<open>isValid\<close> afterwards at any clock value. If the current password does not verify, the operation fails with
  \<^verbatim>\<open>Current password is incorrect\<close> (401), appends one failure audit row, and leaves
  the users and sessions tables as they were.
\<close>

theorem C7_change_password_revokes_sessions:
  assumes byId: "User_findById st uid = Some row"
    and byName: "User_findByUsername st (username row) = Some usr"
  shows "(verifyPassword e cur (password_hash usr) \<longrightarrow>
            fst (changePassword e True now uid cur new req st) = Inr ()
          \<and> users (snd (changePassword e aud now uid cur new req st)) =
              map (\<lambda>v. if u_id v = uid then v\<lparr>password_hash := bcrypt_hash e new\<rparr> else v)
                (users st)
          \<and> sessions (snd (changePassword e aud now uid cur new req st)) =
              map (\<lambda>r. if user_id r = uid \<and> revoked_at r = None
                        then r\<lparr>revoked_at := Some now\<rparr> else r)
                (sessions st)
          \<and> (\<forall>i < length (sessions st). user_id (sessions st ! i) = uid \<longrightarrow>
                revoked_at (sessions (snd (changePassword e aud now uid cur new req st)) ! i)
                  \<noteq> None
                \<and> sessions (snd (changePassword e aud now uid cur new req st)) ! i =
                    (sessions st ! i)
                      \<lparr>revoked_at := revoked_at
                         (sessions (snd (changePassword e aud now uid cur new req st)) ! i)\<rparr>)
          \<and> (\<forall>i < length (sessions st). user_id (sessions st ! i) \<noteq> uid \<longrightarrow>
                sessions (snd (changePassword e aud now uid cur new req st)) ! i =
                  sessions st ! i)
          \<and> User_findById (snd (changePassword e aud now uid cur new req st)) uid =
              Some (row\<lparr>password_hash := bcrypt_hash e new\<rparr>)
          \<and> (\<forall>u\<in>set (users (snd (changePassword e aud now uid cur new req st))).
                u_id u = uid \<longrightarrow> password_hash u = bcrypt_hash e new)
          \<and> (\<forall>s\<in>set (sessions (snd (changePassword e aud now uid cur new req st))).
                user_id s = uid \<longrightarrow> revoked_at s \<noteq> None)
          \<and> (\<forall>tok s now'. findByToken st tok = Some s \<and> user_id s = uid \<longrightarrow>
                \<not> isValid (snd (changePassword e aud now uid cur new req st)) now' tok))
       \<and> (\<not> verifyPassword e cur (password_hash usr) \<longrightarrow>
            fst (changePassword e True now uid cur new req st) =
              Inl (AppError ''Current password is incorrect'' 401 ''INVALID_CREDENTIALS'')
          \<and> audit_log (snd (changePassword e True now uid cur new req st)) =
              audit_log st @
                [password_change_audit (u_id usr)
                   [(''reason'', JStr ''invalid_current_password'')] (clientIp req) ''failure'']
          \<and> users (snd (changePassword e aud now uid cur new req st)) = users st
          \<and> sessions (snd (changePassword e aud now uid cur new req st)) = sessions st)"
proof -
  let ?st2 = "revokeAllByUserId now uid (User_changePassword e uid new st)"
  have us: "users ?st2 =
      map (\<lambda>v. if u_id v = uid then v\<lparr>password_hash := bcrypt_hash e new\<rparr> else v) (users st)"
    by (simp add: revokeAllByUserId_def User_changePassword_def update_users_def)
  have ses: "sessions ?st2 =
      map (\<lambda>r. if user_id r = uid \<and> revoked_at r = None
                then r\<lparr>revoked_at := Some now\<rparr> else r) (sessions st)"
    by (simp add: revokeAllByUserId_def revoke_where_def User_changePassword_def)
  have ses': "sessions ?st2 = sessions (revokeAllByUserId now uid st)"
    by (simp add: revokeAllByUserId_def revoke_where_def User_changePassword_def)
  show ?thesis
  proof (intro conjI impI)
    assume right: "verifyPassword e cur (password_hash usr)"
    note eq = changePassword_right [OF byId byName right]
    show "fst (changePassword e True now uid cur new req st) = Inr ()"
      unfolding eq by (simp add: fst_audit_then)
    show "users (snd (changePassword e aud now uid cur new req st)) =
              map (\<lambda>v. if u_id v = uid then v\<lparr>password_hash := bcrypt_hash e new\<rparr> else v)
                (users st)"
      unfolding eq using us by simp
    show after: "sessions (snd (changePassword e aud now uid cur new req st)) =
              map (\<lambda>r. if user_id r = uid \<and> revoked_at r = None
                        then r\<lparr>revoked_at := Some now\<rparr> else r)
                (sessions st)"
      unfolding eq using ses by simp
    show "\<forall>i < length (sessions st). user_id (sessions st ! i) = uid \<longrightarrow>
                revoked_at (sessions (snd (changePassword e aud now uid cur new req st)) ! i)
                  \<noteq> None
                \<and> sessions (snd (changePassword e aud now uid cur new req st)) ! i =
                    (sessions st ! i)
                      \<lparr>revoked_at := revoked_at
                         (sessions (snd (changePassword e aud now uid cur new req st)) ! i)\<rparr>"
    proof (intro allI impI)
      fix i
      assume i: "i < length (sessions st)" and own: "user_id (sessions st ! i) = uid"
      let ?old = "sessions st ! i"
      have nth: "sessions (snd (changePassword e aud now uid cur new req st)) ! i =
                 (if user_id ?old = uid \<and> revoked_at ?old = None
                  then ?old\<lparr>revoked_at := Some now\<rparr> else ?old)"
        unfolding after using i by (rule nth_map)
      show "revoked_at (sessions (snd (changePassword e aud now uid cur new req st)) ! i)
                  \<noteq> None
                \<and> sessions (snd (changePassword e aud now uid cur new req st)) ! i =
                    ?old\<lparr>revoked_at := revoked_at
                         (sessions (snd (changePassword e aud now uid cur new req st)) ! i)\<rparr>"
      proof (cases "revoked_at ?old = None")
        case True
        with own nth
        have "sessions (snd (changePassword e aud now uid cur new req st)) ! i =
              ?old\<lparr>revoked_at := Some now\<rparr>"
          by presburger
        then show ?thesis by simp
      next
        case False
        with nth
        have "sessions (snd (changePassword e aud now uid cur new req st)) ! i = ?old"
          by presburger
        with False show ?thesis by simp
      qed
    qed
    show "\<forall>i < length (sessions st). user_id (sessions st ! i) \<noteq> uid \<longrightarrow>
                sessions (snd (changePassword e aud now uid cur new req st)) ! i =
                  sessions st ! i"
    proof (intro allI impI)
      fix i
      assume i: "i < length (sessions st)" and other: "user_id (sessions st ! i) \<noteq> uid"
      let ?old = "sessions st ! i"
      have "sessions (snd (changePassword e aud now uid cur new req st)) ! i =
                 (if user_id ?old = uid \<and> revoked_at ?old = None
                  then ?old\<lparr>revoked_at := Some now\<rparr> else ?old)"
        unfolding after using i by (rule nth_map)
      with other show "sessions (snd (changePassword e aud now uid cur new req st)) ! i = ?old"
        by presburger
    qed
    have "User_findById (snd (changePassword e aud now uid cur new req st)) uid =
          User_findById (User_changePassword e uid new st) uid"
      unfolding eq by (rule findById_cong) (simp add: revokeAllByUserId_def)
    also have "\<dots> = Some (row\<lparr>password_hash := bcrypt_hash e new\<rparr>)"
    proof -
      from byId have "u_id row = uid"
        unfolding User_findById_def by (auto dest: find_Some_mem)
      with byId show ?thesis
        by (simp add: User_changePassword_def User_findById_update)
    qed
    finally show "User_findById (snd (changePassword e aud now uid cur new req st)) uid =
          Some (row\<lparr>password_hash := bcrypt_hash e new\<rparr>)" .
    show "\<forall>u\<in>set (users (snd (changePassword e aud now uid cur new req st))).
            u_id u = uid \<longrightarrow> password_hash u = bcrypt_hash e new"
    proof (intro ballI impI)
      fix u
      assume "u \<in> set (users (snd (changePassword e aud now uid cur new req st)))"
        and i: "u_id u = uid"
      then have "u \<in> set (users ?st2)" unfolding eq by simp
      then show "password_hash u = bcrypt_hash e new"
        unfolding us using i by (rule hash_all)
    qed
    show "\<forall>s\<in>set (sessions (snd (changePassword e aud now uid cur new req st))).
            user_id s = uid \<longrightarrow> revoked_at s \<noteq> None"
    proof (intro ballI impI)
      fix s
      assume "s \<in> set (sessions (snd (changePassword e aud now uid cur new req st)))"
        and i: "user_id s = uid"
      then have "s \<in> set (sessions ?st2)" unfolding eq by simp
      then show "revoked_at s \<noteq> None"
        unfolding ses using i by (rule revoked_all)
    qed
    show "\<forall>tok s now'. findByToken st tok = Some s \<and> user_id s = uid \<longrightarrow>
            \<not> isValid (snd (changePassword e aud now uid cur new req st)) now' tok"
    proof (intro allI impI, elim conjE)
      fix tok s now'
      assume f: "findByToken st tok = Some s" and i: "user_id s = uid"
      have "sessions (snd (changePassword e aud now uid cur new req st)) =
            sessions (revokeAllByUserId now uid st)"
        unfolding eq using ses' by simp
      from isValid_cong [OF this] isValid_after_revokeAll [OF f i]
      show "\<not> isValid (snd (changePassword e aud now uid cur new req st)) now' tok"
        by simp
    qed
  next
    assume wrong: "\<not> verifyPassword e cur (password_hash usr)"
    note eq = changePassword_wrong [OF byId byName wrong]
    show "fst (changePassword e True now uid cur new req st) =
          Inl (AppError ''Current password is incorrect'' 401 ''INVALID_CREDENTIALS'')"
      unfolding eq by (simp add: fst_audit_then)
    show "audit_log (snd (changePassword e True now uid cur new req st)) =
      audit_log st @
        [password_change_audit (u_id usr)
           [(''reason'', JStr ''invalid_current_password'')] (clientIp req) ''failure'']"
      unfolding eq by (simp add: audit_log_audit_then)
    show "users (snd (changePassword e aud now uid cur new req st)) = users st"
      unfolding eq by simp
    show "sessions (snd (changePassword e aud now uid cur new req st)) = sessions st"
      unfolding eq by simp
  qed
qed

theorem C7_admin_changes_password:
  "User_findById store_two_sessions 1 = Some (admin\<lparr>last_login_at := Some 1000\<rparr>)
   \<and> User_findByUsername store_two_sessions ''admin'' = Some (admin\<lparr>last_login_at := Some 1000\<rparr>)
   \<and> verifyPassword sample_env ''correct'' (password_hash (admin\<lparr>last_login_at := Some 1000\<rparr>))
   \<and> \<not> verifyPassword sample_env ''bad'' (password_hash (admin\<lparr>last_login_at := Some 1000\<rparr>))
   \<and> findByToken store_two_sessions (token_at 0) \<noteq> None
   \<and> map user_id (sessions store_two_sessions) = [1, 1]
   \<and> isValid store_two_sessions 2000 (token_at 0)
   \<and> fst (changePassword sample_env True 2000 1 ''correct'' ''Newpass1'' sample_request
            store_two_sessions) = Inr ()
   \<and> \<not> isValid (snd (changePassword sample_env True 2000 1 ''correct'' ''Newpass1''
                       sample_request store_two_sessions)) 2000 (token_at 0)
   \<and> User_findById (snd (changePassword sample_env True 2000 1 ''correct'' ''Newpass1''
                           sample_request store_two_sessions)) 1
       = Some (admin\<lparr>last_login_at := Some 1000, password_hash := ''bcrypt:Newpass1''\<rparr>)
   \<and> map revoked_at (sessions store_two_sessions) = [None, None]
   \<and> map revoked_at (sessions (snd (changePassword sample_env True 2000 1 ''correct''
                                    ''Newpass1'' sample_request store_two_sessions)))
       = [Some 2000, Some 2000]
   \<and> fst (changePassword sample_env True 2000 1 ''bad'' ''Newpass1'' sample_request
            store_two_sessions)
       = Inl (AppError ''Current password is incorrect'' 401 ''INVALID_CREDENTIALS'')
   \<and> users (snd (changePassword sample_env True 2000 1 ''bad'' ''Newpass1'' sample_request
                   store_two_sessions)) = users store_two_sessions
   \<and> sessions (snd (changePassword sample_env True 2000 1 ''bad'' ''Newpass1'' sample_request
                      store_two_sessions)) = sessions store_two_sessions"
proof -
  let ?row = "admin\<lparr>last_login_at := Some 1000\<rparr>"
  have byId: "User_findById store_two_sessions 1 = Some ?row"
    by (simp add: model_defs Let_def)
  have byName: "User_findByUsername store_two_sessions (username ?row) = Some ?row"
    by (simp add: model_defs Let_def)
  have name: "username ?row = ''admin''"
    by (simp add: admin_def)
  have right: "verifyPassword sample_env ''correct'' (password_hash ?row)"
    by (simp add: verifyPassword_def sample_env_def admin_def)
  have wrong: "\<not> verifyPassword sample_env ''bad'' (password_hash ?row)"
    by (simp add: verifyPassword_def sample_env_def admin_def)
  have ledger: "findByToken store_two_sessions (token_at 0) \<noteq> None"
    "map user_id (sessions store_two_sessions) = [1, 1]"
    "isValid store_two_sessions 2000 (token_at 0)"
    by (simp_all add: model_defs Let_def)
  have stamps: "map revoked_at (sessions store_two_sessions) = [None, None]"
    "map revoked_at (sessions (snd (changePassword sample_env True 2000 1 ''correct''
                                    ''Newpass1'' sample_request store_two_sessions)))
       = [Some 2000, Some 2000]"
    by (simp_all add: model_defs Let_def)
  from ledger(1) obtain s where s: "findByToken store_two_sessions (token_at 0) = Some s"
    by blast
  then have "s \<in> set (sessions store_two_sessions)"
    unfolding findByToken_def by (auto dest: find_Some_mem)
  then have "user_id s \<in> set (map user_id (sessions store_two_sessions))"
    by simp
  then have owner: "user_id s = 1"
    unfolding ledger(2) by simp
  note good = C7_change_password_revokes_sessions
    [OF byId byName, of sample_env "''correct''" 2000 "''Newpass1''" sample_request True]
  note bad = C7_change_password_revokes_sessions
    [OF byId byName, of sample_env "''bad''" 2000 "''Newpass1''" sample_request True]
  from good right s owner
  have a: "fst (changePassword sample_env True 2000 1 ''correct'' ''Newpass1'' sample_request
            store_two_sessions) = Inr ()"
    and b: "\<not> isValid (snd (changePassword sample_env True 2000 1 ''correct'' ''Newpass1''
                       sample_request store_two_sessions)) 2000 (token_at 0)"
    and h: "User_findById (snd (changePassword sample_env True 2000 1 ''correct'' ''Newpass1''
                           sample_request store_two_sessions)) 1
       = Some (?row\<lparr>password_hash := bcrypt_hash sample_env ''Newpass1''\<rparr>)"
    by blast+
  have h': "User_findById (snd (changePassword sample_env True 2000 1 ''correct'' ''Newpass1''
                           sample_request store_two_sessions)) 1
       = Some (admin\<lparr>last_login_at := Some 1000, password_hash := ''bcrypt:Newpass1''\<rparr>)"
    unfolding h by (simp add: sample_env_def)
  from bad wrong
  have c: "fst (changePassword sample_env True 2000 1 ''bad'' ''Newpass1'' sample_request
            store_two_sessions)
       = Inl (AppError ''Current password is incorrect'' 401 ''INVALID_CREDENTIALS'')"
    and d: "users (snd (changePassword sample_env True 2000 1 ''bad'' ''Newpass1''
                   sample_request store_two_sessions)) = users store_two_sessions"
    and e: "sessions (snd (changePassword sample_env True 2000 1 ''bad'' ''Newpass1''
                   sample_request store_two_sessions)) = sessions store_two_sessions"
    by blast+
  from byId byName [unfolded name] right wrong ledger a b h' stamps c d e show ?thesis
    by (intro conjI)
qed

subsection \<open>C8: after a successful login\<close>

text \<open>
  Claim C8. Whenever login returns a result (password verified on an active, unlocked
  account), the account found under that username in the resulting store is the one named
  in the result and has \<open>failed_login_attempts = 0\<close> and \<open>locked_until\<close> null; so has
  every row with that user id.
\<close>

theorem C8_successful_login_clears_counter_and_lock:
  assumes ok: "fst (login cfg e aud now uname pw req st) = Inr r"
  shows "(\<exists>u. User_findByUsername (snd (login cfg e aud now uname pw req st)) uname = Some u
              \<and> u_id u = lu_id (r_user r)
              \<and> failed_login_attempts u = 0 \<and> locked_until u = None)
       \<and> (\<forall>u\<in>set (users (snd (login cfg e aud now uname pw req st))).
              u_id u = lu_id (r_user r) \<longrightarrow>
              failed_login_attempts u = 0 \<and> locked_until u = None)"
proof -
  let ?st' = "snd (login cfg e aud now uname pw req st)"
  from login_success_only [OF ok] obtain usr where found: "User_findByUsername st uname = Some usr"
    and active: "is_active usr" and nl: "\<not> isAccountLocked now (locked_until usr)"
    and right: "verifyPassword e pw (password_hash usr)"
    by blast
  note eq = login_correct_password [OF found active nl right, of cfg aud req]
  from ok have rid: "lu_id (r_user r) = u_id usr"
    unfolding eq by (auto simp: fst_audit_then split: if_splits)
  have us: "users ?st' = users (updateLastLogin now (u_id usr) (resetFailedAttempts (u_id usr) st))"
    unfolding eq by simp
  have "User_findByUsername ?st' uname =
          User_findByUsername (updateLastLogin now (u_id usr) (resetFailedAttempts (u_id usr) st)) uname"
    using us by (rule findByUsername_cong)
  then have f': "User_findByUsername ?st' uname =
      Some (usr\<lparr>failed_login_attempts := 0, locked_until := None, last_login_at := Some now\<rparr>)"
    using found
    by (simp add: updateLastLogin_def resetFailedAttempts_def User_findByUsername_update)
  have all: "\<forall>u\<in>set (users ?st'). u_id u = u_id usr \<longrightarrow>
              failed_login_attempts u = 0 \<and> locked_until u = None"
    unfolding us by (auto simp: updateLastLogin_def resetFailedAttempts_def update_users_def)
  show ?thesis using f' all rid by simp
qed

text \<open>The administrator with five failures and a lock that has just run out logs in with
  the correct password.\<close>

theorem C8_admin_logs_in_after_lock_expiry:
  "fst (login default_config sample_env True 900000 ''admin'' ''correct'' sample_request
          store_locked)
     = Inr \<lparr> r_token = token_at 900000,
             r_user = \<lparr> lu_id = 1, lu_username = ''admin'', lu_email = None,
                        lu_role = ''admin'' \<rparr>,
             r_expiresIn = 3600 \<rparr>
   \<and> map failed_login_attempts (users store_locked) = [5]
   \<and> map locked_until (users store_locked) = [Some 900000]
   \<and> map u_id (users (snd (login default_config sample_env True 900000 ''admin'' ''correct''
                             sample_request store_locked))) = [1]
   \<and> map failed_login_attempts
        (users (snd (login default_config sample_env True 900000 ''admin'' ''correct''
                       sample_request store_locked))) = [0]
   \<and> map locked_until
        (users (snd (login default_config sample_env True 900000 ''admin'' ''correct''
                       sample_request store_locked))) = [None]"
proof -
  let ?r = "\<lparr> r_token = token_at 900000,
             r_user = \<lparr> lu_id = 1, lu_username = ''admin'', lu_email = None,
                        lu_role = ''admin'' \<rparr>,
             r_expiresIn = 3600 \<rparr>"
  let ?after = "snd (login default_config sample_env True 900000 ''admin'' ''correct''
                       sample_request store_locked)"
  have ok: "fst (login default_config sample_env True 900000 ''admin'' ''correct''
                  sample_request store_locked) = Inr ?r"
    by (simp add: model_defs Let_def)
  have before: "map failed_login_attempts (users store_locked) = [5]"
    "map locked_until (users store_locked) = [Some 900000]"
    by (simp_all add: store_locked_def admin_def)
  have ids: "map u_id (users ?after) = [1]"
    by (simp add: model_defs Let_def)
  then obtain u where us: "users ?after = [u]" and i: "u_id u = 1"
    by auto
  have "lu_id (r_user ?r) = 1" by simp
  with C8_successful_login_clears_counter_and_lock [OF ok]
  have "\<forall>u\<in>set (users ?after). u_id u = 1 \<longrightarrow>
          failed_login_attempts u = 0 \<and> locked_until u = None"
    by simp
  with us i have "failed_login_attempts u = 0" "locked_until u = None"
    by simp_all
  then have after: "map failed_login_attempts (users ?after) = [0]"
    "map locked_until (users ?after) = [None]"
    unfolding us by simp_all
  from ok before ids after show ?thesis by (intro conjI)
qed

subsection \<open>C9: the order of the checks in login\<close>

text \<open>
  Claim C9. For an existing account the active check and the lock check come before the
  password is looked at: an inactive account answers \<^verbatim>\<open>ACCOUNT_INACTIVE\<close> and an active,
  locked account answers \<^verbatim>\<open>ACCOUNT_LOCKED\<close> for every password (their audit row
  written). A username that no row has answers \<^verbatim>\<open>INVALID_CREDENTIALS\<close>, which is a
  different error from both, so either answer tells the caller that the account exists.
\<close>

theorem C9_inactive_and_locked_checks_precede_password:
  assumes found: "User_findByUsername st uname = Some usr"
    and missing: "User_findByUsername st other = None"
  shows "(\<not> is_active usr \<longrightarrow>
            fst (login cfg e True now uname pw req st) = Inl ACCOUNT_INACTIVE)
       \<and> (is_active usr \<and> isAccountLocked now (locked_until usr) \<longrightarrow>
            fst (login cfg e True now uname pw req st) = Inl ACCOUNT_LOCKED)
       \<and> fst (login cfg e True now' other pw' req' st) = Inl INVALID_CREDENTIALS
       \<and> ACCOUNT_INACTIVE \<noteq> INVALID_CREDENTIALS
       \<and> ACCOUNT_LOCKED \<noteq> INVALID_CREDENTIALS"
proof -
  have "fst (login cfg e True now uname pw req st) = Inl ACCOUNT_INACTIVE" if "\<not> is_active usr"
    by (simp add: login_inactive [OF found that] fst_audit_then)
  moreover have "fst (login cfg e True now uname pw req st) = Inl ACCOUNT_LOCKED"
    if "is_active usr" "isAccountLocked now (locked_until usr)"
    by (simp add: login_locked [OF found that] fst_audit_then)
  moreover have "fst (login cfg e True now' other pw' req' st) = Inl INVALID_CREDENTIALS"
    by (simp add: login_not_found [OF missing] fst_audit_then)
  moreover have "ACCOUNT_INACTIVE \<noteq> INVALID_CREDENTIALS" "ACCOUNT_LOCKED \<noteq> INVALID_CREDENTIALS"
    by (simp_all add: ACCOUNT_INACTIVE_def ACCOUNT_LOCKED_def INVALID_CREDENTIALS_def)
  ultimately show ?thesis by blast
qed

theorem C9_inactive_admin_and_locked_admin:
  "User_findByUsername store_inactive ''admin'' = Some (admin\<lparr>is_active := False\<rparr>)
   \<and> User_findByUsername store_inactive ''ghost'' = None
   \<and> \<not> is_active (admin\<lparr>is_active := False\<rparr>)
   \<and> fst (login default_config sample_env True 5000 ''admin'' ''correct'' sample_request
            store_inactive) = Inl ACCOUNT_INACTIVE
   \<and> fst (login default_config sample_env True 5000 ''ghost'' ''correct'' sample_request
            store_inactive) = Inl INVALID_CREDENTIALS
   \<and> User_findByUsername store_locked ''admin'' =
       Some (admin\<lparr>failed_login_attempts := 5, locked_until := Some 900000\<rparr>)
   \<and> User_findByUsername store_locked ''ghost'' = None
   \<and> is_active (admin\<lparr>failed_login_attempts := 5, locked_until := Some 900000\<rparr>)
   \<and> isAccountLocked 5000
        (locked_until (admin\<lparr>failed_login_attempts := 5, locked_until := Some 900000\<rparr>))
   \<and> fst (login default_config sample_env True 5000 ''admin'' ''correct'' sample_request
            store_locked) = Inl ACCOUNT_LOCKED"
proof -
  let ?off = "admin\<lparr>is_active := False\<rparr>"
  let ?held = "admin\<lparr>failed_login_attempts := 5, locked_until := Some 900000\<rparr>"
  have f1: "User_findByUsername store_inactive ''admin'' = Some ?off"
    and m1: "User_findByUsername store_inactive ''ghost'' = None"
    and f2: "User_findByUsername store_locked ''admin'' = Some ?held"
    and m2: "User_findByUsername store_locked ''ghost'' = None"
    by (simp_all add: User_findByUsername_def store_inactive_def store_locked_def admin_def)
  have off: "\<not> is_active ?off" and on: "is_active ?held"
    and held: "isAccountLocked 5000 (locked_until ?held)"
    by (simp_all add: admin_def isAccountLocked_def)
  note one = C9_inactive_and_locked_checks_precede_password
    [OF f1 m1, of default_config sample_env 5000 "''correct''" sample_request 5000 "''correct''"
       sample_request]
  note two = C9_inactive_and_locked_checks_precede_password
    [OF f2 m2, of default_config sample_env 5000 "''correct''" sample_request 5000 "''correct''"
       sample_request]
  from one off
  have a: "fst (login default_config sample_env True 5000 ''admin'' ''correct'' sample_request
            store_inactive) = Inl ACCOUNT_INACTIVE"
    and b: "fst (login default_config sample_env True 5000 ''ghost'' ''correct'' sample_request
            store_inactive) = Inl INVALID_CREDENTIALS"
    by blast+
  from two on held
  have c: "fst (login default_config sample_env True 5000 ''admin'' ''correct'' sample_request
            store_locked) = Inl ACCOUNT_LOCKED"
    by blast
  from f1 m1 off a b f2 m2 on held c show ?thesis by (intro conjI)
qed

subsection \<open>C10: logout and the other sessions\<close>

text \<open>
  Claim C10. Logout rewrites only session rows whose token is the given one. Every row
  with another token, of the same user or of another, is the same row afterwards (in
  particular its \<open>revoked_at\<close> and \<open>expires_at\<close>), the lookup of any other token
  finds the same row, \<^verbatim>\<open>isValid\<close> of any other token is unchanged at every clock
  value, and the users table is untouched. This holds whether or not the audit row of the
  logout is written.
\<close>

theorem C10_logout_leaves_other_sessions_alone:
  assumes other: "tok' \<noteq> tok"
  shows "findByToken (snd (logout aud now uid tok req st)) tok' = findByToken st tok'
       \<and> isValid (snd (logout aud now uid tok req st)) now' tok' = isValid st now' tok'
       \<and> length (sessions (snd (logout aud now uid tok req st))) = length (sessions st)
       \<and> (\<forall>i < length (sessions st). token (sessions st ! i) \<noteq> tok \<longrightarrow>
             sessions (snd (logout aud now uid tok req st)) ! i = sessions st ! i)
       \<and> users (snd (logout aud now uid tok req st)) = users st"
proof -
  have ses: "sessions (snd (logout aud now uid tok req st)) =
             map (\<lambda>s. if token s = tok then s\<lparr>revoked_at := Some now\<rparr> else s) (sessions st)"
    by (simp add: logout_def Let_def revokeByToken_def revoke_where_def)
  have fnd: "findByToken (snd (logout aud now uid tok req st)) tok' = findByToken st tok'"
  proof -
    have "findByToken (snd (logout aud now uid tok req st)) tok' =
          findByToken (revokeByToken now tok st) tok'"
      by (rule findByToken_cong) (simp add: ses revokeByToken_def revoke_where_def)
    also have "\<dots> = findByToken st tok'"
    proof (cases "findByToken st tok'")
      case None
      then show ?thesis by (simp add: revokeByToken_def findByToken_revoke_where)
    next
      case (Some s)
      then have "token s = tok'" by (rule findByToken_token)
      with Some other show ?thesis by (simp add: revokeByToken_def findByToken_revoke_where)
    qed
    finally show ?thesis .
  qed
  have val: "isValid (snd (logout aud now uid tok req st)) now' tok' = isValid st now' tok'"
    by (simp add: isValid_def fnd)
  have us: "users (snd (logout aud now uid tok req st)) = users st"
    by (simp add: logout_def Let_def revokeByToken_def)
  show ?thesis using fnd val us by (simp add: ses)
qed

theorem C10_logout_of_first_session_keeps_second:
  "token_at 1000 \<noteq> token_at 0
   \<and> isValid store_two_sessions 2000 (token_at 0)
   \<and> isValid store_two_sessions 2000 (token_at 1000)
   \<and> \<not> isValid (snd (logout True 2000 1 (token_at 0) sample_request store_two_sessions))
         2000 (token_at 0)
   \<and> isValid (snd (logout True 2000 1 (token_at 0) sample_request store_two_sessions))
         2000 (token_at 1000)"
proof -
  have other: "token_at 1000 \<noteq> token_at 0"
    by (simp add: model_defs Let_def)
  have before: "isValid store_two_sessions 2000 (token_at 0)"
    "isValid store_two_sessions 2000 (token_at 1000)"
    by (simp_all add: model_defs Let_def)
  have gone: "\<not> isValid (snd (logout True 2000 1 (token_at 0) sample_request
                              store_two_sessions)) 2000 (token_at 0)"
    by (simp add: model_defs Let_def)
  from C10_logout_leaves_other_sessions_alone
         [OF other, of True 2000 1 sample_request store_two_sessions 2000] before(2)
  have kept: "isValid (snd (logout True 2000 1 (token_at 0) sample_request
                             store_two_sessions)) 2000 (token_at 1000)"
    by blast
  from other before gone kept show ?thesis by (intro conjI)
qed

end
